theory Spec2Isabelle
  imports Main
begin

section \<open>Data model\<close>

text \<open>
  The lifecycle states of an instance, with the spelling of the source
  (\<open>InstanceState.LODING\<close> is the loading state).
\<close>

datatype InstanceState = STOPPED | LODING | RUNNING | RESTARTING

text \<open>
  Everything the controllers do to the outside world is recorded, in order, as a
  list of effects: messages shown to the user, console output, spawned processes,
  observer notifications, admin calls and deployments.
\<close>

datatype effect =
    ShowErrorMessage string
  | ShowWarningMessage string
  | ConsoleWarn string
  | ConsoleError string
  | ConsoleLog string
  | StartDebugging
  | Open string
  | Spawn string "string list"
  | OutputShow
  | OutputAppend string
  | StateChanged InstanceState
  | RefreshServerList
  | StartTask bool
  | RestInvoke string
  | ConnectOutput
  | DisconnectOutput
  | CheckAliveStatusUsingRest
  | CheckAliveStatusUsingJPS
  | ReloadApplications
  | Delay nat
  | DeployApplication string
  | BuildAndDeployApplication string

text \<open>
  A child process as the controllers see it: only its \<open>pid\<close> is read. A spawn that
  failed gives a handle whose \<open>pid\<close> is undefined.
\<close>

record ChildProcess =
  pid :: "nat option"

text \<open>JavaScript truthiness of \<open>process.pid\<close>: undefined and 0 are falsy.\<close>

definition hasPid :: "ChildProcess \<Rightarrow> bool" where
  "hasPid p = (case pid p of None \<Rightarrow> False | Some n \<Rightarrow> n \<noteq> 0)"

record DebugConfiguration =
  port :: string

text \<open>
  Modelled from the spec: the instance classes \<open>PayaraMicroInstance\<close> and
  \<open>PayaraServerInstance\<close> are not among the sources. The spec gives an instance a
  mutable state, a debug-mode flag, an optional home page and a process handle; the
  getters and setters below read and write these fields and nothing else.
\<close>

record Instance =
  state :: InstanceState
  debug :: bool

record PayaraMicroInstance = Instance +
  homePage :: "string option"
  process :: "ChildProcess option"

record PayaraServerInstance = Instance +
  name :: string
  path :: string
  domainName :: string
  applications :: "string list"

text \<open>
  Modelled from the spec: the state predicates of the two instance classes, which are
  not among the sources. Each compares the state with one value of the enumeration
  (the spec: after a successful start the state is \<open>RUNNING\<close> and \<open>isStopped()\<close>
  is false).
\<close>

definition isStopped :: "'a Instance_scheme \<Rightarrow> bool" where
  "isStopped i = (state i = STOPPED)"

definition isStarted :: "'a Instance_scheme \<Rightarrow> bool" where
  "isStarted i = (state i = RUNNING)"

definition isRestarting :: "'a Instance_scheme \<Rightarrow> bool" where
  "isRestarting i = (state i = RESTARTING)"

text \<open>
  A world is an instance together with the effects produced so far. The world of a
  micro instance also holds the closure variable \<open>debugConfig\<close> of the running
  \<open>startMicro\<close> call, which its data callback clears.
\<close>

record 'i world =
  inst :: 'i
  trace :: "effect list"

record mworld = "PayaraMicroInstance world" +
  debugConfig :: "DebugConfiguration option"

type_synonym sworld = "PayaraServerInstance world"

definition emit :: "effect \<Rightarrow> ('i, 'a) world_scheme \<Rightarrow> ('i, 'a) world_scheme" where
  "emit x w = w\<lparr>trace := trace w @ [x]\<rparr>"

definition emits :: "effect list \<Rightarrow> ('i, 'a) world_scheme \<Rightarrow> ('i, 'a) world_scheme" where
  "emits xs w = w\<lparr>trace := trace w @ xs\<rparr>"

text \<open>
  Modelled from the spec: \<open>PayaraMicroInstance.setState\<close> is not among the sources.
  The spec has every transition store the state and notify the observers.
\<close>

definition setState :: "InstanceState \<Rightarrow> mworld \<Rightarrow> mworld" where
  "setState s w = emit (StateChanged s) (w\<lparr>inst := (inst w)\<lparr>state := s\<rparr>\<rparr>)"

text \<open>
  Modelled from the spec: the plain setters of the instance classes, which are not
  among the sources. Each stores its argument in the field it names.
\<close>

definition setDebug ::
  "bool \<Rightarrow> ('b Instance_scheme, 'a) world_scheme \<Rightarrow> ('b Instance_scheme, 'a) world_scheme" where
  "setDebug b w = w\<lparr>inst := (inst w)\<lparr>debug := b\<rparr>\<rparr>"

definition setHomePage :: "string \<Rightarrow> mworld \<Rightarrow> mworld" where
  "setHomePage h w = w\<lparr>inst := (inst w)\<lparr>homePage := Some h\<rparr>\<rparr>"

definition setProcess :: "ChildProcess \<Rightarrow> mworld \<Rightarrow> mworld" where
  "setProcess p w = w\<lparr>inst := (inst w)\<lparr>process := Some p\<rparr>\<rparr>"

section \<open>JavaScript string operations used by the controllers\<close>

text \<open>\<open>s.indexOf(pat)\<close>: the first position where \<open>pat\<close> occurs, \<open>None\<close> for -1.\<close>

fun indexOf :: "string \<Rightarrow> string \<Rightarrow> nat option" where
  "indexOf [] pat = (if pat = [] then Some 0 else None)"
| "indexOf (c # cs) pat =
     (if take (length pat) (c # cs) = pat then Some 0
      else map_option Suc (indexOf cs pat))"

text \<open>\<open>s.split("\n")\<close>: never empty; a trailing newline gives a last empty piece.\<close>

fun split_nl :: "string \<Rightarrow> string list" where
  "split_nl [] = [[]]"
| "split_nl (c # cs) =
     (if c = CHR 0x0A then [] # split_nl cs
      else (case split_nl cs of
              [] \<Rightarrow> [[c]]
            | l # ls \<Rightarrow> (c # l) # ls))"

definition endsWith :: "string \<Rightarrow> string \<Rightarrow> bool" where
  "endsWith s suf = (length suf \<le> length s \<and> drop (length s - length suf) s = suf)"

fun join :: "string \<Rightarrow> string list \<Rightarrow> string" where
  "join sep [] = []"
| "join sep [x] = x"
| "join sep (x # y # ys) = x @ sep @ join sep (y # ys)"

text \<open>Decimal text of an exit code, as a template literal prints it.\<close>

fun digits :: "nat \<Rightarrow> string" where
  "digits n =
     (if n < 10 then [char_of (48 + n)]
      else digits (n div 10) @ [char_of (48 + n mod 10)])"

definition showCode :: "int \<Rightarrow> string" where
  "showCode c = (if c < 0 then CHR ''-'' # digits (nat (- c)) else digits (nat c))"

section \<open>The Maven build (\<open>Maven.ts\<close>)\<close>

text \<open>
  What the build reads from its surroundings: the editor configuration and the
  process environment, the file system, the platform, the workspace folder, the
  plugin configuration read from the POM, and the pid that spawning a command gives.
  The coordinates and goals of the Payara Micro Maven plugin are constants of a class
  that is not among the sources; they are parameters here.
\<close>

record MicroPluginReader =
  deployWarEnabled :: bool
  uberJarEnabled :: bool

record env =
  configMavenHome :: "string option"
  envM2_HOME :: "string option"
  envMAVEN_HOME :: "string option"
  pathSep :: string
  IS_WIN :: bool
  existsSync :: "string \<Rightarrow> bool"
  workspaceFolder :: "string option"
  microPluginReader :: "MicroPluginReader option"
  spawn :: "string \<Rightarrow> string list \<Rightarrow> nat option"
  GROUP_ID :: string
  ARTIFACT_ID :: string
  START_GOAL :: string
  RELOAD_GOAL :: string
  STOP_GOAL :: string
  BUNDLE_GOAL :: string
  instanceWorkspaceFolder :: bool
  payaraMicroDebugConfig :: "DebugConfiguration option"
  createdDebugConfiguration :: DebugConfiguration

text \<open>JavaScript falsiness of a \<open>string | undefined\<close>: undefined and the empty string.\<close>

definition falsy :: "string option \<Rightarrow> bool" where
  "falsy s = (case s of None \<Rightarrow> True | Some t \<Rightarrow> t = [])"

definition getDefaultHome :: "env \<Rightarrow> string option" where
  "getDefaultHome e =
     (if falsy (configMavenHome e)
      then (if falsy (envM2_HOME e) then envMAVEN_HOME e else envM2_HOME e)
      else configMavenHome e)"

definition getExecutableFullPath :: "env \<Rightarrow> string \<Rightarrow> string" where
  "getExecutableFullPath e mavenHome =
     (let mavenHomeEndsWithPathSep = (mavenHome \<noteq> [] \<and> [last mavenHome] = pathSep e);
          mavenExecStr =
            (if mavenHomeEndsWithPathSep then mavenHome else mavenHome @ pathSep e)
              @ ''bin'' @ pathSep e @ ''mvn''
      in if IS_WIN e
         then (if existsSync e (mavenExecStr @ ''.bat'') then mavenExecStr @ ''.bat''
               else if existsSync e (mavenExecStr @ ''.cmd'') then mavenExecStr @ ''.cmd''
               else mavenExecStr)
         else mavenExecStr)"

text \<open>
  \<open>fireCommand\<close> throws (\<open>Inl\<close>, with the message) when the Maven home, the Maven
  executable or the workspace folder is missing; otherwise it spawns the command and
  returns the handle with the effects it produced. It registers the callbacks only
  when the handle has a pid.
\<close>

definition fireCommand :: "env \<Rightarrow> string list \<Rightarrow> string + ChildProcess \<times> effect list" where
  "fireCommand e command =
     (if falsy (getDefaultHome e) then Inl ''Maven home path not found.''
      else
        let mavenExe = getExecutableFullPath e (the (getDefaultHome e)) in
        if \<not> existsSync e mavenExe
        then Inl (''Maven executable ['' @ mavenExe @ ''] not found'')
        else if workspaceFolder e = None then Inl ''WorkSpace path not found.''
        else
          let proc = \<lparr>pid = spawn e mavenExe command\<rparr> in
          Inr (proc,
               Spawn mavenExe command #
               (if hasPid proc
                then [OutputShow,
                      OutputAppend (''> '' @ mavenExe @ '' '' @ join '' '' command @ [CHR 0x0A])]
                else [])))"

text \<open>
  The events of a spawned process, and their delivery to the three callbacks given to
  \<open>fireCommand\<close>: a handle without a pid has no callback registered, so nothing is
  delivered; a data chunk is appended to the output channel before the data callback.
\<close>

datatype proc_event = Data string | Exit int | Error string

definition deliver ::
  "ChildProcess \<Rightarrow> (string \<Rightarrow> 'w \<Rightarrow> 'w) \<Rightarrow> (int \<Rightarrow> 'w \<Rightarrow> 'w) \<Rightarrow> (string \<Rightarrow> 'w \<Rightarrow> 'w) \<Rightarrow>
   (effect \<Rightarrow> 'w \<Rightarrow> 'w) \<Rightarrow> proc_event \<Rightarrow> 'w \<Rightarrow> 'w" where
  "deliver p dataCallback exitCallback errorCallback log ev w =
     (if hasPid p
      then (case ev of
              Data d \<Rightarrow> dataCallback d (log (OutputAppend d) w)
            | Exit c \<Rightarrow> exitCallback c w
            | Error m \<Rightarrow> errorCallback m w)
      else w)"

definition getMicroPluginReader :: "env \<Rightarrow> string + MicroPluginReader" where
  "getMicroPluginReader e =
     (case microPluginReader e of
        None \<Rightarrow> Inl ''Pom reader not initilized yet''
      | Some r \<Rightarrow> Inr r)"

definition goal :: "env \<Rightarrow> string \<Rightarrow> string" where
  "goal e g = GROUP_ID e @ '':'' @ ARTIFACT_ID e @ '':'' @ g"

definition withHandle ::
  "string + ChildProcess \<times> effect list \<Rightarrow> string + ChildProcess option \<times> effect list" where
  "withHandle r = (case r of Inl m \<Rightarrow> Inl m | Inr (p, xs) \<Rightarrow> Inr (Some p, xs))"

definition startPayaraMicro ::
  "env \<Rightarrow> DebugConfiguration option \<Rightarrow> string + ChildProcess option \<times> effect list" where
  "startPayaraMicro e dc =
     (case getMicroPluginReader e of
        Inl m \<Rightarrow> Inl m
      | Inr r \<Rightarrow>
          if deployWarEnabled r = False \<and> uberJarEnabled r = False
          then Inr (None, [ShowWarningMessage
                 ''Please either enable the deployWar or useUberJar option in payara-micro-maven-plugin configuration to deploy the application.''])
          else
            let cmds =
                  (if uberJarEnabled r
                   then [''install'', goal e (BUNDLE_GOAL e), goal e (START_GOAL e)]
                   else [''resources:resources'', ''compiler:compile'', ''war:exploded'',
                         goal e (START_GOAL e), ''-Dexploded=true'', ''-DdeployWar=true''])
                  @ (case dc of
                       None \<Rightarrow> []
                     | Some c \<Rightarrow>
                         [''-Ddebug=-agentlib:jdwp=transport=dt_socket,server=y,suspend=y,address=''
                          @ port c])
            in withHandle (fireCommand e cmds))"

definition reloadPayaraMicro :: "env \<Rightarrow> string + ChildProcess option \<times> effect list" where
  "reloadPayaraMicro e =
     (case getMicroPluginReader e of
        Inl m \<Rightarrow> Inl m
      | Inr r \<Rightarrow>
          if uberJarEnabled r
          then Inr (None,
                 [ShowWarningMessage ''The reload action not supported for UberJar artifact.''])
          else withHandle (fireCommand e
                 [''resources:resources'', ''compiler:compile'', ''war:exploded'',
                  goal e (RELOAD_GOAL e)]))"

definition stopPayaraMicro :: "env \<Rightarrow> string + ChildProcess option \<times> effect list" where
  "stopPayaraMicro e = withHandle (fireCommand e [goal e (STOP_GOAL e)])"

section \<open>The micro instance controller (\<open>PayaraMicroInstanceController.ts\<close>)\<close>

text \<open>
  An operation either returns or throws; in both cases the world it leaves behind is
  kept, since nothing in the controllers undoes a change when an exception passes.
\<close>

datatype 'w outcome = Returned 'w | Thrown string 'w

fun final :: "'w outcome \<Rightarrow> 'w" where
  "final (Returned w) = w"
| "final (Thrown m w) = w"

definition parseApplicationUrl :: "string \<Rightarrow> mworld \<Rightarrow> bool \<times> mworld" where
  "parseApplicationUrl data w =
     (case indexOf data ''Payara Micro URLs:'' of
        None \<Rightarrow> (False, w)
      | Some urlIndex \<Rightarrow>
          let lines = split_nl (drop urlIndex data);
              w1 = (if length lines > 1 then setHomePage (lines ! 1) w else w);
              w2 = (case homePage (inst w1) of
                      None \<Rightarrow> w1
                    | Some h \<Rightarrow> if h \<noteq> [] then emit (Open h) w1 else w1)
          in (True, w2))"

definition startMicro_onData :: "string \<Rightarrow> mworld \<Rightarrow> mworld" where
  "startMicro_onData data w =
     (if \<not> isStarted (inst w)
      then
        let w1 = (if debugConfig w \<noteq> None
                     \<and> indexOf data ''Listening for transport dt_socket at address:'' \<noteq> None
                  then (emit StartDebugging w)\<lparr>debugConfig := None\<rparr>
                  else w);
            r = parseApplicationUrl data w1
        in if fst r then setState RUNNING (snd r) else snd r
      else w)"

definition startMicro_onExit :: "int \<Rightarrow> mworld \<Rightarrow> mworld" where
  "startMicro_onExit code w =
     (let w1 = setState STOPPED w
      in if code \<noteq> 0
         then emit (ConsoleWarn (''startMicro task failed with exit code '' @ showCode code)) w1
         else w1)"

definition startMicro_onError :: "string \<Rightarrow> mworld \<Rightarrow> mworld" where
  "startMicro_onError message w =
     setState STOPPED (emit (ConsoleError (''Error on executing startMicro task: '' @ message)) w)"

text \<open>
  \<open>startMicro\<close> up to its return. Its optional \<open>callback\<close> parameter is never used
  by the source and is left out. The callbacks it hands to the build are the three
  functions above; \<open>startMicro_event\<close> delivers an event of the spawned process to them.
\<close>

definition startMicro :: "env \<Rightarrow> bool \<Rightarrow> mworld \<Rightarrow> mworld outcome" where
  "startMicro e dbg w =
     (if \<not> isStopped (inst w)
      then Returned (emit (ShowErrorMessage ''Payara Micro instance already running.'') w)
      else
        let dc = (if dbg \<and> instanceWorkspaceFolder e
                  then (case payaraMicroDebugConfig e of
                          None \<Rightarrow> Some (createdDebugConfiguration e)
                        | Some c \<Rightarrow> Some c)
                  else None);
            w1 = setState LODING ((setDebug dbg w)\<lparr>debugConfig := dc\<rparr>)
        in case startPayaraMicro e dc of
             Inl m \<Rightarrow> Thrown m w1
           | Inr (proc, xs) \<Rightarrow>
               (case proc of
                  Some p \<Rightarrow> Returned (setProcess p (emits xs w1))
                | None \<Rightarrow> Returned (setState STOPPED (emits xs w1))))"

definition startMicro_event :: "ChildProcess \<Rightarrow> proc_event \<Rightarrow> mworld \<Rightarrow> mworld" where
  "startMicro_event p = deliver p startMicro_onData startMicro_onExit startMicro_onError emit"

definition reloadMicro_onExit :: "int \<Rightarrow> mworld \<Rightarrow> mworld" where
  "reloadMicro_onExit code w =
     (let w1 = setState RUNNING w
      in if code \<noteq> 0
         then emit (ConsoleWarn (''reloadMicro task failed with exit code '' @ showCode code)) w1
         else w1)"

definition reloadMicro_onError :: "string \<Rightarrow> mworld \<Rightarrow> mworld" where
  "reloadMicro_onError message w =
     setState RUNNING (emit (ConsoleError (''Error on executing reloadMicro task: '' @ message)) w)"

definition reloadMicro :: "env \<Rightarrow> mworld \<Rightarrow> mworld outcome" where
  "reloadMicro e w =
     (if isStopped (inst w)
      then Returned (emit (ShowErrorMessage ''Payara Micro instance not running.'') w)
      else
        let w1 = setState LODING w
        in case reloadPayaraMicro e of
             Inl m \<Rightarrow> Thrown m w1
           | Inr (proc, xs) \<Rightarrow>
               (case proc of
                  Some p \<Rightarrow> Returned (emits xs w1)
                | None \<Rightarrow> Returned (setState RUNNING (emits xs w1))))"

definition reloadMicro_event :: "ChildProcess \<Rightarrow> proc_event \<Rightarrow> mworld \<Rightarrow> mworld" where
  "reloadMicro_event p = deliver p (\<lambda>d w. w) reloadMicro_onExit reloadMicro_onError emit"

definition stopMicro_onExit :: "int \<Rightarrow> mworld \<Rightarrow> mworld" where
  "stopMicro_onExit code w =
     (let w1 = setState STOPPED (setDebug False w)
      in if code \<noteq> 0
         then emit (ConsoleWarn (''stopMicro task failed with exit code '' @ showCode code)) w1
         else w1)"

definition stopMicro_onError :: "string \<Rightarrow> mworld \<Rightarrow> mworld" where
  "stopMicro_onError message w =
     setState STOPPED
       (setDebug False (emit (ConsoleError (''Error on executing stopMicro task: '' @ message)) w))"

definition stopMicro :: "env \<Rightarrow> mworld \<Rightarrow> mworld outcome" where
  "stopMicro e w =
     (if isStopped (inst w)
      then Returned (emit (ShowErrorMessage ''Payara Micro instance not running.'') w)
      else (case stopPayaraMicro e of
              Inl m \<Rightarrow> Thrown m w
            | Inr (proc, xs) \<Rightarrow> Returned (emits xs w)))"

definition stopMicro_event :: "ChildProcess \<Rightarrow> proc_event \<Rightarrow> mworld \<Rightarrow> mworld" where
  "stopMicro_event p = deliver p (\<lambda>d w. w) stopMicro_onExit stopMicro_onError emit"

text \<open>
  Everything the micro controller can do to an instance: its three operations (with
  the surroundings of the call) and the events of the processes they spawn. A history
  of the instance is a list of these, run in order from the world the instance starts
  in.
\<close>

datatype micro_action =
    StartMicro env bool
  | ReloadMicro env
  | StopMicro env
  | StartMicroEvent ChildProcess proc_event
  | ReloadMicroEvent ChildProcess proc_event
  | StopMicroEvent ChildProcess proc_event

fun micro_step :: "micro_action \<Rightarrow> mworld \<Rightarrow> mworld" where
  "micro_step (StartMicro e dbg) w = final (startMicro e dbg w)"
| "micro_step (ReloadMicro e) w = final (reloadMicro e w)"
| "micro_step (StopMicro e) w = final (stopMicro e w)"
| "micro_step (StartMicroEvent p ev) w = startMicro_event p ev w"
| "micro_step (ReloadMicroEvent p ev) w = reloadMicro_event p ev w"
| "micro_step (StopMicroEvent p ev) w = stopMicro_event p ev w"

definition micro_run :: "micro_action list \<Rightarrow> mworld \<Rightarrow> mworld" where
  "micro_run acts w = fold micro_step acts w"

section \<open>The server instance controller (\<open>PayaraInstanceController\<close>)\<close>

text \<open>
  Modelled from the spec: the setters of \<open>PayaraServerInstance\<close> are not among the
  sources. \<open>setState\<close> stores the state; \<open>setStarted\<close> stores \<open>RUNNING\<close> for true
  and \<open>STOPPED\<close> for false (the spec's transitions of the alive and exit callbacks).
  The controller itself asks for the refresh of the server list after each of them.
\<close>

definition setServerState :: "InstanceState \<Rightarrow> sworld \<Rightarrow> sworld" where
  "setServerState s w = w\<lparr>inst := (inst w)\<lparr>state := s\<rparr>\<rparr>"

definition setStarted :: "bool \<Rightarrow> sworld \<Rightarrow> sworld" where
  "setStarted started w = setServerState (if started then RUNNING else STOPPED) w"

text \<open>An optional completion callback \<open>callback?: (status: boolean) => any\<close>.\<close>

type_synonym callback = "(bool \<Rightarrow> sworld \<Rightarrow> sworld) option"

definition call :: "callback \<Rightarrow> bool \<Rightarrow> sworld \<Rightarrow> sworld" where
  "call cb status w = (case cb of None \<Rightarrow> w | Some f \<Rightarrow> f status w)"

text \<open>
  \<open>startServer\<close> up to its return. The start task that spawns the server is not among
  the sources: the pid of the handle it returns is the parameter \<open>taskPid\<close>. The
  callback is used only by the probe callbacks that the call registers.
\<close>

definition startServer :: "nat option \<Rightarrow> bool \<Rightarrow> callback \<Rightarrow> sworld \<Rightarrow> sworld" where
  "startServer taskPid dbg cb w =
     (if \<not> isStopped (inst w)
      then emit (ShowErrorMessage ''Payara Server instance already running.'') w
      else
        let proc = \<lparr>pid = taskPid\<rparr>;
            w1 = emit (StartTask dbg) w
        in if hasPid proc
           then emits [RefreshServerList, OutputShow, CheckAliveStatusUsingRest]
                  (setServerState LODING (setDebug dbg w1))
           else w1)"

definition startServer_onExit :: "int \<Rightarrow> sworld \<Rightarrow> sworld" where
  "startServer_onExit code w =
     (if \<not> isRestarting (inst w)
      then emit RefreshServerList (setStarted False w)
      else w)"

definition startServer_onError :: "string \<Rightarrow> sworld \<Rightarrow> sworld" where
  "startServer_onError message w = emit (ConsoleLog (''error: '' @ message)) w"

definition startServer_onAlive :: "callback \<Rightarrow> sworld \<Rightarrow> sworld" where
  "startServer_onAlive cb w =
     call cb True (emits [RefreshServerList, ReloadApplications] (setStarted True w))"

definition startServer_onTimeout :: "callback \<Rightarrow> sworld \<Rightarrow> sworld" where
  "startServer_onTimeout cb w =
     emit (ShowErrorMessage ''Unable to start the Payara Server.'')
       (call cb False (emit RefreshServerList (setStarted False w)))"

text \<open>
  What happens after a call: the events of the server process and of the probes.
  \<open>startServer_event taskPid cb w0 ev\<close> is the effect of the event \<open>ev\<close> on the
  callbacks registered by the call \<open>startServer taskPid dbg cb\<close> made in the world
  \<open>w0\<close>: that call registers callbacks only when its guard passed and the handle
  has a pid.
\<close>

datatype server_event =
    ProcData string
  | ProcError string
  | ProcExit int
  | RestAlive
  | RestTimeout
  | JpsAlive
  | Response nat

definition startServer_event ::
  "nat option \<Rightarrow> callback \<Rightarrow> sworld \<Rightarrow> server_event \<Rightarrow> sworld \<Rightarrow> sworld" where
  "startServer_event taskPid cb w0 ev w =
     (if isStopped (inst w0) \<and> hasPid \<lparr>pid = taskPid\<rparr>
      then (case ev of
              ProcData d \<Rightarrow> emit (OutputAppend d) w
            | ProcError m \<Rightarrow> startServer_onError m w
            | ProcExit c \<Rightarrow> startServer_onExit c w
            | RestAlive \<Rightarrow> startServer_onAlive cb w
            | RestTimeout \<Rightarrow> startServer_onTimeout cb w
            | JpsAlive \<Rightarrow> w
            | Response n \<Rightarrow> w)
      else w)"

text \<open>
  \<open>restartServer\<close> up to its return: the guard and the admin call. The callback of
  the admin call is \<open>restartServer_onResponse\<close>, run with the status code of the
  response; the probes it starts run \<open>restartServer_onAlive\<close>, \<open>restartServer_onTimeout\<close>
  and \<open>restartServer_onJPS\<close>.
\<close>

definition restartServer :: "bool \<Rightarrow> callback \<Rightarrow> sworld \<Rightarrow> sworld" where
  "restartServer dbg cb w =
     (if isStopped (inst w)
      then emit (ShowErrorMessage ''Payara Server instance not running.'') w
      else emit (RestInvoke ''restart-domain'') w)"

definition restartServer_onResponse :: "bool \<Rightarrow> nat \<Rightarrow> sworld \<Rightarrow> sworld" where
  "restartServer_onResponse dbg statusCode w =
     (if statusCode = 200
      then emits [RefreshServerList, OutputShow, CheckAliveStatusUsingRest, CheckAliveStatusUsingJPS]
             (setServerState RESTARTING (setDebug dbg (emit ConnectOutput w)))
      else emit (ShowErrorMessage ''Unable to restart the Payara Server.'') w)"





definition stopServer :: "sworld \<Rightarrow> sworld" where
  "stopServer w =
     (if isStopped (inst w)
      then emit (ShowErrorMessage ''Payara Server instance not running.'') w
      else emit (RestInvoke ''stop-domain'') w)"

definition stopServer_onResponse :: "nat \<Rightarrow> sworld \<Rightarrow> sworld" where
  "stopServer_onResponse statusCode w =
     (if statusCode = 200
      then emits [Delay 2000, RefreshServerList, DisconnectOutput]
             (setDebug False (setServerState STOPPED w))
      else w)"

text \<open>
  \<open>deployApp\<close> on the server that \<open>selectListedServer\<close> hands to it. \<open>deploy\<close> is
  the local function it passes on as the completion callback; the two deployment
  operations of \<open>DeploymentSupport\<close> are recorded as effects.
\<close>

definition deploy :: "string \<Rightarrow> bool \<Rightarrow> sworld \<Rightarrow> sworld" where
  "deploy fsPath status w =
     (if status
      then (if endsWith fsPath ''.war'' \<or> endsWith fsPath ''.jar''
            then emit (DeployApplication fsPath) w
            else emit (BuildAndDeployApplication fsPath) w)
      else emit (ShowErrorMessage
             ''Unable to deploy the application as Payara Server instance not running.'') w)"



text \<open>The deployments attempted in a trace, and the transitions to a state notified in it.\<close>

fun isUpload :: "effect \<Rightarrow> bool" where
  "isUpload (DeployApplication a) = True"
| "isUpload (BuildAndDeployApplication a) = True"
| "isUpload x = False"

definition uploads :: "effect list \<Rightarrow> effect list" where
  "uploads t = filter isUpload t"

fun isSpawn :: "effect \<Rightarrow> bool" where
  "isSpawn (Spawn exe args) = True"
| "isSpawn (StartTask d) = True"
| "isSpawn x = False"

definition transitions :: "InstanceState \<Rightarrow> effect list \<Rightarrow> nat" where
  "transitions s t = length (filter (\<lambda>x. x = StateChanged s) t)"

definition marker :: string where
  "marker = ''Payara Micro URLs:''"

text \<open>Feeding the chunks of an output stream, in order, to the data callback of a start.\<close>

definition feed :: "string list \<Rightarrow> mworld \<Rightarrow> mworld" where
  "feed chunks w = fold startMicro_onData chunks w"

section \<open>Concrete scenarios\<close>

text \<open>
  A machine on which Maven is installed and the project deploys an exploded WAR, the
  same machine without the Maven executable, one where the spawn gives no pid, and a
  project whose plugin configuration disables both deployment options.
\<close>

definition env_ok :: env where
  "env_ok =
     \<lparr>configMavenHome = Some ''/opt/maven'', envM2_HOME = None, envMAVEN_HOME = None,
      pathSep = ''/'', IS_WIN = False, existsSync = (\<lambda>f. f = ''/opt/maven/bin/mvn''),
      workspaceFolder = Some ''/work/app'',
      microPluginReader = Some \<lparr>deployWarEnabled = True, uberJarEnabled = False\<rparr>,
      spawn = (\<lambda>exe args. Some 4242),
      GROUP_ID = ''fish.payara.maven.plugins'', ARTIFACT_ID = ''payara-micro-maven-plugin'',
      START_GOAL = ''start'', RELOAD_GOAL = ''reload'', STOP_GOAL = ''stop'',
      BUNDLE_GOAL = ''bundle'', instanceWorkspaceFolder = True,
      payaraMicroDebugConfig = None, createdDebugConfiguration = \<lparr>port = ''5005''\<rparr>\<rparr>"

definition env_no_mvn :: env where
  "env_no_mvn = env_ok\<lparr>existsSync := (\<lambda>f. False)\<rparr>"

definition env_no_pid :: env where
  "env_no_pid = env_ok\<lparr>spawn := (\<lambda>exe args. None)\<rparr>"

definition env_no_deploy :: env where
  "env_no_deploy =
     env_ok\<lparr>microPluginReader := Some \<lparr>deployWarEnabled = False, uberJarEnabled = False\<rparr>\<rparr>"

definition micro_in :: "InstanceState \<Rightarrow> mworld" where
  "micro_in s =
     \<lparr>inst = \<lparr>state = s, debug = False, homePage = None,
              process = (if s = STOPPED then None else Some \<lparr>pid = Some 4242\<rparr>)\<rparr>,
      trace = [], debugConfig = None\<rparr>"

definition server_in :: "InstanceState \<Rightarrow> sworld" where
  "server_in s =
     \<lparr>inst = \<lparr>state = s, debug = False, name = ''srv1'', path = ''/opt/payara5'',
              domainName = ''domain1'', applications = []\<rparr>,
      trace = []\<rparr>"

definition banner :: string where
  "banner = ''Payara Micro URLs:'' @ [CHR 0x0A] @ '' http://localhost:8080'' @ [CHR 0x0A]"

section \<open>Facts about the model\<close>


lemmas world_defs = emit_def emits_def setState_def setDebug_def setHomePage_def setProcess_def
  setServerState_def setStarted_def isStopped_def isStarted_def isRestarting_def call_def

lemma transitions_append [simp]:
  "transitions s (t @ u) = transitions s t + transitions s u"
  by (simp add: transitions_def)

lemma transitions_single [simp]:
  "transitions s [x] = (if x = StateChanged s then 1 else 0)"
  by (simp add: transitions_def)

lemma parseApplicationUrl_found:
  "fst (parseApplicationUrl d w) = (indexOf d marker \<noteq> None)"
  by (simp add: parseApplicationUrl_def marker_def Let_def split: option.splits)

lemma parseApplicationUrl_state:
  "state (inst (snd (parseApplicationUrl d w))) = state (inst w)"
  by (simp add: parseApplicationUrl_def Let_def world_defs split: option.splits)

lemma parseApplicationUrl_transitions:
  "transitions s (trace (snd (parseApplicationUrl d w))) = transitions s (trace w)"
  by (simp add: parseApplicationUrl_def Let_def world_defs split: option.splits)

lemma onData_running: "state (inst w) = RUNNING \<Longrightarrow> startMicro_onData d w = w"
  by (simp add: startMicro_onData_def isStarted_def)

lemma onData_marker:
  assumes "state (inst w) \<noteq> RUNNING" and "indexOf d marker \<noteq> None"
  shows "state (inst (startMicro_onData d w)) = RUNNING"
    and "transitions RUNNING (trace (startMicro_onData d w)) = transitions RUNNING (trace w) + 1"
  using assms
  by (simp_all add: startMicro_onData_def Let_def parseApplicationUrl_found
      parseApplicationUrl_transitions isStarted_def setState_def emit_def)

lemma onData_no_marker:
  assumes "indexOf d marker = None"
  shows "state (inst (startMicro_onData d w)) = state (inst w)"
    and "transitions RUNNING (trace (startMicro_onData d w)) = transitions RUNNING (trace w)"
  using assms
  by (simp_all add: startMicro_onData_def Let_def parseApplicationUrl_found
      parseApplicationUrl_transitions parseApplicationUrl_state isStarted_def emit_def)

lemma feed_running: "state (inst w) = RUNNING \<Longrightarrow> feed chunks w = w"
  by (induction chunks) (simp_all add: feed_def onData_running)

lemma feed_Cons: "feed (c # cs) w = feed cs (startMicro_onData c w)"
  by (simp add: feed_def)

lemma feed_count:
  "transitions RUNNING (trace (feed chunks w)) =
     transitions RUNNING (trace w)
       + (if state (inst w) \<noteq> RUNNING \<and> (\<exists>c\<in>set chunks. indexOf c marker \<noteq> None) then 1 else 0)"
proof (induction chunks arbitrary: w)
  case Nil
  show ?case by (simp add: feed_def)
next
  case (Cons c cs)
  show ?case
  proof (cases "state (inst w) = RUNNING")
    case True
    then show ?thesis by (simp add: feed_running)
  next
    case notrun: False
    show ?thesis
    proof (cases "indexOf c marker = None")
      case True
      with notrun Cons.IH [of "startMicro_onData c w"] show ?thesis
        by (simp add: feed_Cons onData_no_marker)
    next
      case False
      with notrun have "state (inst (startMicro_onData c w)) = RUNNING"
        and "transitions RUNNING (trace (startMicro_onData c w)) = transitions RUNNING (trace w) + 1"
        by (simp_all add: onData_marker)
      with notrun False show ?thesis
        by (simp add: feed_Cons feed_running)
    qed
  qed
qed

lemma feed_state:
  "state (inst w) \<noteq> RUNNING \<Longrightarrow> \<exists>c\<in>set chunks. indexOf c marker \<noteq> None \<Longrightarrow>
   state (inst (feed chunks w)) = RUNNING"
proof (induction chunks arbitrary: w)
  case Nil
  then show ?case by simp
next
  case (Cons c cs)
  show ?case
  proof (cases "indexOf c marker = None")
    case True
    with Cons.prems have "state (inst (startMicro_onData c w)) \<noteq> RUNNING"
      and "\<exists>c\<in>set cs. indexOf c marker \<noteq> None"
      by (simp_all add: onData_no_marker)
    then show ?thesis using Cons.IH by (simp add: feed_Cons)
  next
    case False
    with Cons.prems show ?thesis
      by (simp add: feed_Cons feed_running onData_marker)
  qed
qed

lemma banner_marker: "indexOf banner marker = Some 0"
  by (simp add: banner_def marker_def)

lemma banner_no_debug_marker:
  "indexOf banner ''Listening for transport dt_socket at address:'' = None"
  by (simp add: banner_def)

lemma banner_second_line: "split_nl (drop 0 banner) ! 1 = '' http://localhost:8080''"
  by (simp add: banner_def)

lemma banner_lines: "length (split_nl (drop 0 banner)) = 3"
  by (simp add: banner_def)

lemma onData_banner:
  assumes "state (inst w) \<noteq> RUNNING"
  shows "startMicro_onData banner w =
           setState RUNNING (emit (Open '' http://localhost:8080'')
             (setHomePage '' http://localhost:8080'' w))"
  using assms banner_marker banner_second_line banner_lines
  by (simp add: startMicro_onData_def parseApplicationUrl_def banner_no_debug_marker
      marker_def isStarted_def Let_def setHomePage_def)

lemma startMicro_spawned:
  assumes "isStopped (inst w)" and "startPayaraMicro e None = Inr (Some p, xs)"
  shows "startMicro e False w =
           Returned (setProcess p (emits xs (setState LODING ((setDebug False w)\<lparr>debugConfig := None\<rparr>))))"
  using assms by (simp add: startMicro_def)

lemma env_ok_start: "startPayaraMicro env_ok None =
  Inr (Some \<lparr>pid = Some 4242\<rparr>,
       [Spawn ''/opt/maven/bin/mvn''
         [''resources:resources'', ''compiler:compile'', ''war:exploded'',
          ''fish.payara.maven.plugins:payara-micro-maven-plugin:start'',
          ''-Dexploded=true'', ''-DdeployWar=true''],
        OutputShow,
        OutputAppend
         (''> /opt/maven/bin/mvn resources:resources compiler:compile war:exploded fish.payara.maven.plugins:payara-micro-maven-plugin:start -Dexploded=true -DdeployWar=true'' @ [CHR 0x0A])])"
  by (simp add: startPayaraMicro_def getMicroPluginReader_def env_ok_def fireCommand_def
      getDefaultHome_def falsy_def getExecutableFullPath_def withHandle_def hasPid_def goal_def
      Let_def)

lemma uploads_append [simp]: "uploads (t @ u) = uploads t @ uploads u"
  by (simp add: uploads_def)

lemma uploads_Cons [simp]: "uploads (x # t) = (if isUpload x then x # uploads t else uploads t)"
  by (simp add: uploads_def)

lemma uploads_Nil [simp]: "uploads [] = []"
  by (simp add: uploads_def)

lemma env_ok_stop: "stopPayaraMicro env_ok =
  Inr (Some \<lparr>pid = Some 4242\<rparr>,
       [Spawn ''/opt/maven/bin/mvn'' [''fish.payara.maven.plugins:payara-micro-maven-plugin:stop''],
        OutputShow,
        OutputAppend (''> /opt/maven/bin/mvn fish.payara.maven.plugins:payara-micro-maven-plugin:stop''
          @ [CHR 0x0A])])"
  by (simp add: stopPayaraMicro_def env_ok_def fireCommand_def
      getDefaultHome_def falsy_def getExecutableFullPath_def withHandle_def hasPid_def goal_def
      Let_def)





lemma reload_callbacks_running:
  "state (inst (reloadMicro_onExit code w)) = RUNNING"
  "state (inst (reloadMicro_onError m w)) = RUNNING"
  by (simp_all add: reloadMicro_onExit_def reloadMicro_onError_def world_defs Let_def)

lemma onData_not_restarting:
  "state (inst w) \<noteq> RESTARTING \<Longrightarrow> state (inst (startMicro_onData d w)) \<noteq> RESTARTING"
  by (simp add: startMicro_onData_def Let_def parseApplicationUrl_state world_defs)

lemma startMicro_not_restarting:
  "state (inst w) \<noteq> RESTARTING \<Longrightarrow> state (inst (final (startMicro e dbg w))) \<noteq> RESTARTING"
  by (simp add: startMicro_def Let_def world_defs split: sum.splits prod.splits option.splits)

lemma reloadMicro_not_restarting:
  "state (inst w) \<noteq> RESTARTING \<Longrightarrow> state (inst (final (reloadMicro e w))) \<noteq> RESTARTING"
  by (simp add: reloadMicro_def Let_def world_defs split: sum.splits prod.splits option.splits)

lemma stopMicro_not_restarting:
  "state (inst w) \<noteq> RESTARTING \<Longrightarrow> state (inst (final (stopMicro e w))) \<noteq> RESTARTING"
  by (simp add: stopMicro_def Let_def world_defs split: sum.splits prod.splits option.splits)

lemma startMicro_event_not_restarting:
  "state (inst w) \<noteq> RESTARTING \<Longrightarrow> state (inst (startMicro_event p ev w)) \<noteq> RESTARTING"
proof (cases ev)
  case (Data d)
  assume "state (inst w) \<noteq> RESTARTING"
  then have "state (inst (emit (OutputAppend d) w)) \<noteq> RESTARTING" by (simp add: emit_def)
  then show ?thesis
    using \<open>state (inst w) \<noteq> RESTARTING\<close>
    by (simp add: Data startMicro_event_def deliver_def onData_not_restarting)
next
  case (Exit c)
  assume "state (inst w) \<noteq> RESTARTING"
  then show ?thesis
    by (simp add: Exit startMicro_event_def deliver_def startMicro_onExit_def Let_def world_defs)
next
  case (Error m)
  assume "state (inst w) \<noteq> RESTARTING"
  then show ?thesis
    by (simp add: Error startMicro_event_def deliver_def startMicro_onError_def world_defs)
qed

lemma reloadMicro_event_not_restarting:
  "state (inst w) \<noteq> RESTARTING \<Longrightarrow> state (inst (reloadMicro_event p ev w)) \<noteq> RESTARTING"
  by (cases ev)
    (simp_all add: reloadMicro_event_def deliver_def reloadMicro_onExit_def
      reloadMicro_onError_def Let_def world_defs)

lemma stopMicro_event_not_restarting:
  "state (inst w) \<noteq> RESTARTING \<Longrightarrow> state (inst (stopMicro_event p ev w)) \<noteq> RESTARTING"
  by (cases ev)
    (simp_all add: stopMicro_event_def deliver_def stopMicro_onExit_def
      stopMicro_onError_def Let_def world_defs)

lemma micro_step_not_restarting:
  "state (inst w) \<noteq> RESTARTING \<Longrightarrow> state (inst (micro_step a w)) \<noteq> RESTARTING"
  by (cases a)
    (simp_all add: startMicro_not_restarting reloadMicro_not_restarting stopMicro_not_restarting
      startMicro_event_not_restarting reloadMicro_event_not_restarting
      stopMicro_event_not_restarting)

lemma micro_run_not_restarting:
  "state (inst w) \<noteq> RESTARTING \<Longrightarrow> state (inst (micro_run acts w)) \<noteq> RESTARTING"
proof (induction acts arbitrary: w)
  case Nil
  then show ?case by (simp add: micro_run_def)
next
  case (Cons a acts)
  from Cons.prems have "state (inst (micro_step a w)) \<noteq> RESTARTING"
    by (rule micro_step_not_restarting)
  then have "state (inst (micro_run acts (micro_step a w))) \<noteq> RESTARTING"
    by (rule Cons.IH)
  then show ?case by (simp add: micro_run_def)
qed

lemma startMicro_onExit_stopped: "state (inst (startMicro_onExit code w)) = STOPPED"
  by (simp add: startMicro_onExit_def Let_def world_defs)

section \<open>The claims\<close>

text \<open>
  Claim C1. For every instance whose state is not \<open>STOPPED\<close>, calling start on it
  spawns no process, performs no state transition, and surfaces an "already running"
  error to the user; the instance's state, debug flag and process handle are exactly
  as before the call. This holds of \<open>startMicro\<close> and of \<open>startServer\<close>: the
  world after the call is the world before it with the one error message added to the
  trace, and the server call registers no callback.
\<close>

theorem start_rejected_unless_stopped:
  assumes "state (inst w) \<noteq> STOPPED" and "state (inst v) \<noteq> STOPPED"
  shows "startMicro e dbg w =
           Returned (w\<lparr>trace := trace w @ [ShowErrorMessage ''Payara Micro instance already running.'']\<rparr>)
       \<and> startServer taskPid dbg cb v =
           v\<lparr>trace := trace v @ [ShowErrorMessage ''Payara Server instance already running.'']\<rparr>
       \<and> startServer_event taskPid cb v ev v' = v'"
  using assms by (simp add: startMicro_def startServer_def startServer_event_def world_defs)

text \<open>
  Witness of C1: a running micro instance and a loading server instance, both
  started again.
\<close>

theorem start_rejected_unless_stopped_witness:
  "state (inst (micro_in RUNNING)) \<noteq> STOPPED \<and> state (inst (server_in LODING)) \<noteq> STOPPED
   \<and> startMicro env_ok True (micro_in RUNNING) =
       Returned \<lparr>inst = \<lparr>state = RUNNING, debug = False, homePage = None,
                         process = Some \<lparr>pid = Some 4242\<rparr>\<rparr>,
                 trace = [ShowErrorMessage ''Payara Micro instance already running.''],
                 debugConfig = None\<rparr>
   \<and> startServer (Some 7) True None (server_in LODING) =
       \<lparr>inst = \<lparr>state = LODING, debug = False, name = ''srv1'', path = ''/opt/payara5'',
                domainName = ''domain1'', applications = []\<rparr>,
        trace = [ShowErrorMessage ''Payara Server instance already running.'']\<rparr>"
proof -
  have m: "state (inst (micro_in RUNNING)) \<noteq> STOPPED" by (simp add: micro_in_def)
  have s: "state (inst (server_in LODING)) \<noteq> STOPPED" by (simp add: server_in_def)
  show ?thesis
    using m s start_rejected_unless_stopped [OF m s, where e = env_ok and dbg = True
        and taskPid = "Some 7" and cb = None]
    by (simp add: micro_in_def server_in_def)
qed

text \<open>
  Claim C2. If the ready marker \<open>Payara Micro URLs:\<close> occurs in two or more chunks
  of the output delivered to a started instance, the transition to \<open>RUNNING\<close> is
  performed exactly once: feeding any list of chunks to the data callback adds one
  \<open>RUNNING\<close> notification when the instance was not yet running and some chunk holds
  the marker, and none otherwise; once the state is \<open>RUNNING\<close> a chunk changes
  nothing at all.
\<close>

theorem ready_marker_transition_once:
  "transitions RUNNING (trace (feed chunks w)) =
     transitions RUNNING (trace w)
       + (if state (inst w) \<noteq> RUNNING \<and> (\<exists>c\<in>set chunks. indexOf c marker \<noteq> None) then 1 else 0)
   \<and> (state (inst w) \<noteq> RUNNING \<and> (\<exists>c\<in>set chunks. indexOf c marker \<noteq> None)
        \<longrightarrow> state (inst (feed chunks w)) = RUNNING)
   \<and> (state (inst w) = RUNNING \<longrightarrow> startMicro_onData d w = w \<and> feed chunks w = w)"
  using feed_count [of chunks w] feed_state [of w chunks]
  by (simp add: onData_running feed_running)

text \<open>
  Witness of C2: the ready banner arrives twice, with another chunk between, at a
  loading instance; one transition to \<open>RUNNING\<close> is notified.
\<close>

theorem ready_marker_transition_once_witness:
  "state (inst (micro_in LODING)) \<noteq> RUNNING
   \<and> (\<exists>c\<in>set [banner, ''deployed'', banner]. indexOf c marker \<noteq> None)
   \<and> transitions RUNNING (trace (feed [banner, ''deployed'', banner] (micro_in LODING))) = 1
   \<and> state (inst (feed [banner, ''deployed'', banner] (micro_in LODING))) = RUNNING"
proof -
  have a: "state (inst (micro_in LODING)) \<noteq> RUNNING" by (simp add: micro_in_def)
  have b: "\<exists>c\<in>set [banner, ''deployed'', banner]. indexOf c marker \<noteq> None"
    by (simp add: banner_marker)
  have c: "transitions RUNNING (trace (micro_in LODING)) = 0"
    by (simp add: micro_in_def transitions_def)
  show ?thesis
    using a b c ready_marker_transition_once [of "[banner, ''deployed'', banner]" "micro_in LODING"]
    by simp
qed

text \<open>
  Claim C3, as amended. An instance in \<open>STOPPED\<close> is started with debug off and the
  build spawns a process; the process then emits the single chunk
  \<open>"Payara Micro URLs:\n http://localhost:8080\n"\<close>. The state becomes \<open>RUNNING\<close>,
  and the home page is set to the second line of the chunk as it stands, which is
  \<open>" http://localhost:8080"\<close> with its leading space: \<open>parseApplicationUrl\<close>
  stores \<open>lines[1]\<close> without trimming it.
\<close>

theorem banner_sets_running_and_second_line:
  assumes "isStopped (inst w)" and "startPayaraMicro e None = Inr (Some p, xs)" and "hasPid p"
  shows "state (inst (startMicro_event p (Data banner) (final (startMicro e False w)))) = RUNNING
       \<and> homePage (inst (startMicro_event p (Data banner) (final (startMicro e False w))))
           = Some '' http://localhost:8080''"
proof -
  let ?w1 = "final (startMicro e False w)"
  have "state (inst ?w1) = LODING"
    using assms(1,2) by (simp add: startMicro_spawned world_defs)
  then have "state (inst (emit (OutputAppend banner) ?w1)) \<noteq> RUNNING"
    by (simp add: emit_def)
  then show ?thesis
    using assms(3)
    by (simp add: startMicro_event_def deliver_def onData_banner world_defs)
qed

text \<open>Witness of C3: the scenario on a machine where Maven is installed.\<close>

theorem banner_sets_running_and_second_line_witness:
  "isStopped (inst (micro_in STOPPED)) \<and> hasPid \<lparr>pid = Some 4242\<rparr>
   \<and> state (inst (startMicro_event \<lparr>pid = Some 4242\<rparr> (Data banner)
        (final (startMicro env_ok False (micro_in STOPPED))))) = RUNNING
   \<and> homePage (inst (startMicro_event \<lparr>pid = Some 4242\<rparr> (Data banner)
        (final (startMicro env_ok False (micro_in STOPPED))))) = Some '' http://localhost:8080''"
proof -
  have a: "isStopped (inst (micro_in STOPPED))" by (simp add: micro_in_def isStopped_def)
  have c: "hasPid \<lparr>pid = Some 4242\<rparr>" by (simp add: hasPid_def)
  show ?thesis
    using a c banner_sets_running_and_second_line [OF a env_ok_start c] by simp
qed

text \<open>
  Counterexample to C3 as stated: in the scenario of the claim the home page is not
  the string \<open>"http://localhost:8080"\<close>.
\<close>

theorem banner_home_page_counterexample:
  "homePage (inst (startMicro_event \<lparr>pid = Some 4242\<rparr> (Data banner)
      (final (startMicro env_ok False (micro_in STOPPED))))) \<noteq> Some ''http://localhost:8080''"
proof -
  have a: "isStopped (inst (micro_in STOPPED))" by (simp add: micro_in_def isStopped_def)
  have "startMicro env_ok False (micro_in STOPPED) =
          Returned (setProcess \<lparr>pid = Some 4242\<rparr> (emits
            (snd (projr (startPayaraMicro env_ok None)))
            (setState LODING ((setDebug False (micro_in STOPPED))\<lparr>debugConfig := None\<rparr>))))"
    using startMicro_spawned [OF a env_ok_start] by (simp add: env_ok_start)
  then show ?thesis
    by (simp add: startMicro_event_def deliver_def hasPid_def onData_banner world_defs micro_in_def)
qed

text \<open>
  Claim C4. For every started instance, when its process's exit callback fires, the
  state is set to \<open>STOPPED\<close> unless the instance is \<open>RESTARTING\<close>, in which case
  the exit is ignored and the instance is left unchanged. The exit callback of a
  server tests \<open>isRestarting\<close>. The exit callback of a micro instance sets
  \<open>STOPPED\<close> without a test, and no history of the micro controller (its operations
  and the events of its processes, in any order, from a world that is not
  \<open>RESTARTING\<close>, such as a new instance in \<open>STOPPED\<close>) ever makes a micro instance
  \<open>RESTARTING\<close>; so the exception never applies to it.
\<close>

theorem exit_callback_stops_unless_restarting:
  assumes "state (inst w0) \<noteq> RESTARTING"
  shows "(if isRestarting (inst v)
          then startServer_onExit code v = v
          else startServer_onExit code v =
                 v\<lparr>inst := (inst v)\<lparr>state := STOPPED\<rparr>, trace := trace v @ [RefreshServerList]\<rparr>)
       \<and> (if isRestarting (inst (micro_run acts w0))
          then startMicro_onExit code (micro_run acts w0) = micro_run acts w0
          else state (inst (startMicro_onExit code (micro_run acts w0))) = STOPPED)
       \<and> \<not> isRestarting (inst (micro_run acts w0))"
proof -
  have "\<not> isRestarting (inst (micro_run acts w0))"
    using assms by (simp add: isRestarting_def micro_run_not_restarting)
  then show ?thesis
    by (simp add: startMicro_onExit_stopped startServer_onExit_def world_defs)
qed

text \<open>
  Witness of C4: a restarting server, a running server, and a micro instance that was
  started from \<open>STOPPED\<close> and has printed its banner.
\<close>

theorem exit_callback_stops_unless_restarting_witness:
  "state (inst (micro_in STOPPED)) \<noteq> RESTARTING
   \<and> startServer_onExit 0 (server_in RESTARTING) = server_in RESTARTING
   \<and> state (inst (startServer_onExit 1 (server_in RUNNING))) = STOPPED
   \<and> state (inst (startMicro_onExit 1
        (micro_run [StartMicro env_ok False, StartMicroEvent \<lparr>pid = Some 4242\<rparr> (Data banner)]
           (micro_in STOPPED)))) = STOPPED"
proof -
  have a: "state (inst (micro_in STOPPED)) \<noteq> RESTARTING" by (simp add: micro_in_def)
  note T = exit_callback_stops_unless_restarting [OF a,
      where acts = "[StartMicro env_ok False, StartMicroEvent \<lparr>pid = Some 4242\<rparr> (Data banner)]"]
  have s1: "startServer_onExit 0 (server_in RESTARTING) = server_in RESTARTING"
    using T [where v = "server_in RESTARTING" and code = 0, THEN conjunct1]
    by (simp add: isRestarting_def server_in_def)
  have s2: "state (inst (startServer_onExit 1 (server_in RUNNING))) = STOPPED"
    using T [where v = "server_in RUNNING" and code = 1, THEN conjunct1]
    by (simp add: isRestarting_def server_in_def)
  have m: "state (inst (startMicro_onExit 1
        (micro_run [StartMicro env_ok False, StartMicroEvent \<lparr>pid = Some 4242\<rparr> (Data banner)]
           (micro_in STOPPED)))) = STOPPED"
    using T [where v = "server_in RUNNING" and code = 1, THEN conjunct2]
    by (simp split: if_splits)
  show ?thesis using a s1 s2 m by simp
qed

text \<open>
  Claim C5, as amended. For a server instance that is not stopped, a stop whose admin
  call answers with a status other than 200 leaves the instance as it is, and nothing
  but the admin call is added to the trace. For a micro instance, the stop task's
  error callback and its exit callback (with any exit code) clear the debug flag and
  set the state to \<open>STOPPED\<close>.
\<close>

theorem stop_failure_by_controller:
  assumes "\<not> isStopped (inst v)" and "statusCode \<noteq> 200"
  shows "inst (stopServer_onResponse statusCode (stopServer v)) = inst v
       \<and> trace (stopServer_onResponse statusCode (stopServer v)) = trace v @ [RestInvoke ''stop-domain'']
       \<and> state (inst (stopMicro_onError m w)) = STOPPED
       \<and> debug (inst (stopMicro_onError m w)) = False
       \<and> state (inst (stopMicro_onExit code w)) = STOPPED
       \<and> debug (inst (stopMicro_onExit code w)) = False"
  using assms
  by (simp add: stopServer_onResponse_def stopServer_def stopMicro_onError_def
      stopMicro_onExit_def world_defs Let_def)

text \<open>Witness of C5: a running server answering 500, and a running micro instance.\<close>

theorem stop_failure_by_controller_witness:
  "\<not> isStopped (inst (server_in RUNNING)) \<and> (500::nat) \<noteq> 200
   \<and> inst (stopServer_onResponse 500 (stopServer (server_in RUNNING))) = inst (server_in RUNNING)
   \<and> state (inst (stopMicro_onError ''spawn failed'' (micro_in RUNNING))) = STOPPED
   \<and> state (inst (stopMicro_onExit 1 (micro_in RUNNING))) = STOPPED"
proof -
  have a: "\<not> isStopped (inst (server_in RUNNING))" by (simp add: server_in_def isStopped_def)
  have b: "(500::nat) \<noteq> 200" by simp
  show ?thesis
    using a b stop_failure_by_controller [OF a b, of "''spawn failed''" "micro_in RUNNING" 1]
    by simp
qed

text \<open>
  Counterexample to C5 as stated: the stop task of a running micro instance fails with
  a task error, and the state is forced to \<open>STOPPED\<close>.
\<close>

theorem micro_stop_error_counterexample:
  "state (inst (micro_in RUNNING)) = RUNNING
   \<and> state (inst (stopMicro_event \<lparr>pid = Some 4242\<rparr> (Error ''stop task failed'')
        (final (stopMicro env_ok (micro_in RUNNING))))) = STOPPED"
  by (simp add: stopMicro_event_def deliver_def hasPid_def stopMicro_onError_def stopMicro_def
      env_ok_stop world_defs micro_in_def)

text \<open>
  Claim C6. For every instance that is not stopped, a restart whose admin call
  \<open>restart-domain\<close> answers with a status other than 200 reports an error and leaves
  every field of the instance unchanged: the state is set neither to \<open>RESTARTING\<close>
  nor to \<open>STOPPED\<close>, and the debug flag is untouched.
\<close>

theorem restart_failure_leaves_instance:
  assumes "\<not> isStopped (inst v)" and "statusCode \<noteq> 200"
  shows "restartServer_onResponse dbg statusCode (restartServer dbg cb v) =
           v\<lparr>trace := trace v @ [RestInvoke ''restart-domain'',
                ShowErrorMessage ''Unable to restart the Payara Server.'']\<rparr>
       \<and> inst (restartServer_onResponse dbg statusCode (restartServer dbg cb v)) = inst v"
  using assms by (simp add: restartServer_onResponse_def restartServer_def world_defs)

text \<open>Witness of C6: a running server whose admin call answers 503.\<close>

theorem restart_failure_leaves_instance_witness:
  "\<not> isStopped (inst (server_in RUNNING)) \<and> (503::nat) \<noteq> 200
   \<and> restartServer_onResponse True 503 (restartServer True None (server_in RUNNING)) =
       \<lparr>inst = \<lparr>state = RUNNING, debug = False, name = ''srv1'', path = ''/opt/payara5'',
                domainName = ''domain1'', applications = []\<rparr>,
        trace = [RestInvoke ''restart-domain'',
                 ShowErrorMessage ''Unable to restart the Payara Server.'']\<rparr>"
proof -
  have a: "\<not> isStopped (inst (server_in RUNNING))" by (simp add: server_in_def isStopped_def)
  have b: "(503::nat) \<noteq> 200" by simp
  show ?thesis
    using a b restart_failure_leaves_instance [OF a b, where dbg = True and cb = None]
    by (simp add: server_in_def)
qed



text \<open>
  Claim C8 at its failing inputs. The claim has every reload of an instance that is
  not stopped end in \<open>RUNNING\<close>, and the exit callback, the error callback and the
  branch for a missing handle of \<open>reloadMicro\<close> do set \<open>RUNNING\<close>. But a running
  instance reloaded on a machine without the Maven executable stays \<open>LODING\<close>:
  \<open>fireCommand\<close> throws after \<open>reloadMicro\<close> has set \<open>LODING\<close>, and nothing
  resets it. When the spawn gives a handle without a pid, no callback is registered,
  neither the spawn error nor an exit is delivered, and the state stays \<open>LODING\<close> too.
\<close>

theorem reload_failure_leaves_loading:
  "\<not> isStopped (inst (micro_in RUNNING))
   \<and> reloadMicro env_no_mvn (micro_in RUNNING) =
       Thrown ''Maven executable [/opt/maven/bin/mvn] not found''
         \<lparr>inst = \<lparr>state = LODING, debug = False, homePage = None,
                  process = Some \<lparr>pid = Some 4242\<rparr>\<rparr>,
          trace = [StateChanged LODING], debugConfig = None\<rparr>
   \<and> reloadMicro env_no_pid (micro_in RUNNING) =
       Returned
         \<lparr>inst = \<lparr>state = LODING, debug = False, homePage = None,
                  process = Some \<lparr>pid = Some 4242\<rparr>\<rparr>,
          trace = [StateChanged LODING,
                   Spawn ''/opt/maven/bin/mvn''
                     [''resources:resources'', ''compiler:compile'', ''war:exploded'',
                      ''fish.payara.maven.plugins:payara-micro-maven-plugin:reload'']],
          debugConfig = None\<rparr>
   \<and> reloadPayaraMicro env_no_pid =
       Inr (Some \<lparr>pid = None\<rparr>,
            [Spawn ''/opt/maven/bin/mvn''
               [''resources:resources'', ''compiler:compile'', ''war:exploded'',
                ''fish.payara.maven.plugins:payara-micro-maven-plugin:reload'']])
   \<and> state (inst (reloadMicro_event \<lparr>pid = None\<rparr> (Error ''spawn /opt/maven/bin/mvn ENOENT'')
        (final (reloadMicro env_no_pid (micro_in RUNNING))))) = LODING
   \<and> state (inst (reloadMicro_event \<lparr>pid = None\<rparr> (Exit 1)
        (final (reloadMicro env_no_pid (micro_in RUNNING))))) = LODING"
  by (simp add: reloadMicro_def reloadPayaraMicro_def getMicroPluginReader_def env_ok_def
      env_no_mvn_def env_no_pid_def fireCommand_def getDefaultHome_def falsy_def
      getExecutableFullPath_def withHandle_def hasPid_def goal_def Let_def micro_in_def
      world_defs reloadMicro_event_def deliver_def)

text \<open>
  Claim C9 at its failing inputs. A stopped instance is started on a machine without
  the Maven executable: \<open>fireCommand\<close> throws after \<open>startMicro\<close> has set the state
  to \<open>LODING\<close>, nothing resets it, and no message is shown. When the spawn gives a
  handle without a pid, no callback is registered, the handle is stored, and the spawn
  error is never delivered: the state stays \<open>LODING\<close> as well.
\<close>

theorem missing_maven_leaves_loading:
  "isStopped (inst (micro_in STOPPED))
   \<and> startMicro env_no_mvn False (micro_in STOPPED) =
       Thrown ''Maven executable [/opt/maven/bin/mvn] not found''
         \<lparr>inst = \<lparr>state = LODING, debug = False, homePage = None, process = None\<rparr>,
          trace = [StateChanged LODING], debugConfig = None\<rparr>
   \<and> startMicro env_no_pid False (micro_in STOPPED) =
       Returned
         \<lparr>inst = \<lparr>state = LODING, debug = False, homePage = None,
                  process = Some \<lparr>pid = None\<rparr>\<rparr>,
          trace = [StateChanged LODING,
                   Spawn ''/opt/maven/bin/mvn''
                     [''resources:resources'', ''compiler:compile'', ''war:exploded'',
                      ''fish.payara.maven.plugins:payara-micro-maven-plugin:start'',
                      ''-Dexploded=true'', ''-DdeployWar=true'']],
          debugConfig = None\<rparr>
   \<and> state (inst (startMicro_event \<lparr>pid = None\<rparr> (Error ''spawn /opt/maven/bin/mvn ENOENT'')
        (final (startMicro env_no_pid False (micro_in STOPPED))))) = LODING"
  by (simp add: startMicro_def startPayaraMicro_def getMicroPluginReader_def env_ok_def
      env_no_mvn_def env_no_pid_def fireCommand_def getDefaultHome_def falsy_def
      getExecutableFullPath_def withHandle_def hasPid_def goal_def Let_def micro_in_def
      world_defs startMicro_event_def deliver_def)

text \<open>
  Claim C10. For every start of a stopped micro instance whose plugin configuration
  has both \<open>deployWar\<close> and \<open>useUberJar\<close> disabled, the build gives no handle and a
  warning, and \<open>startMicro\<close> returns with the state set back to \<open>STOPPED\<close>: no
  process is spawned and the process handle is the one from before the call.
\<close>

theorem both_options_disabled_stops:
  assumes "isStopped (inst w)" and "microPluginReader e = Some r"
    and "deployWarEnabled r = False" and "uberJarEnabled r = False"
  shows "startPayaraMicro e dc =
           Inr (None, [ShowWarningMessage
             ''Please either enable the deployWar or useUberJar option in payara-micro-maven-plugin configuration to deploy the application.''])
       \<and> (\<exists>w1. startMicro e dbg w = Returned w1)
       \<and> state (inst (final (startMicro e dbg w))) = STOPPED
       \<and> process (inst (final (startMicro e dbg w))) = process (inst w)
       \<and> filter isSpawn (trace (final (startMicro e dbg w))) = filter isSpawn (trace w)
       \<and> trace (final (startMicro e dbg w)) =
           trace w @ [StateChanged LODING,
             ShowWarningMessage
               ''Please either enable the deployWar or useUberJar option in payara-micro-maven-plugin configuration to deploy the application.'',
             StateChanged STOPPED]"
proof -
  have sp: "\<And>dc. startPayaraMicro e dc =
           Inr (None, [ShowWarningMessage
             ''Please either enable the deployWar or useUberJar option in payara-micro-maven-plugin configuration to deploy the application.''])"
    using assms(2-4) by (simp add: startPayaraMicro_def getMicroPluginReader_def)
  show ?thesis
    using assms(1) by (simp add: sp startMicro_def world_defs Let_def)
qed

text \<open>Witness of C10: a project with both options disabled, started in debug mode.\<close>

theorem both_options_disabled_stops_witness:
  "isStopped (inst (micro_in STOPPED))
   \<and> microPluginReader env_no_deploy = Some \<lparr>deployWarEnabled = False, uberJarEnabled = False\<rparr>
   \<and> state (inst (final (startMicro env_no_deploy True (micro_in STOPPED)))) = STOPPED
   \<and> filter isSpawn (trace (final (startMicro env_no_deploy True (micro_in STOPPED)))) = []"
proof -
  have a: "isStopped (inst (micro_in STOPPED))" by (simp add: micro_in_def isStopped_def)
  have b: "microPluginReader env_no_deploy = Some \<lparr>deployWarEnabled = False, uberJarEnabled = False\<rparr>"
    by (simp add: env_no_deploy_def env_ok_def)
  have c: "deployWarEnabled \<lparr>deployWarEnabled = False, uberJarEnabled = False\<rparr> = False" by simp
  have d: "uberJarEnabled \<lparr>deployWarEnabled = False, uberJarEnabled = False\<rparr> = False" by simp
  have t: "trace (micro_in STOPPED) = []" by (simp add: micro_in_def)
  show ?thesis
    using a b t both_options_disabled_stops [OF a b c d, where dbg = True]
    by simp
qed

end
